theory Spec2Isabelle
  imports Complex_Main
begin

section \<open>Data model\<close>

text \<open>
  The embedding follows \<^verbatim>\<open>src/Tiktok.py\<close>, class \<^verbatim>\<open>TikTokCountryAnalyzer\<close>.
  Python floats are modelled as mathematical reals: every result below is about the
  exact arithmetic of the formulas, rounding is abstracted away. Integer literals of the
  configuration table are multiplied by floats at once, so they are reals as well.
  A date is modelled by its calendar year, the only attribute the simulation reads
  (\<^verbatim>\<open>date.year\<close>). The plotting palette \<^verbatim>\<open>self.colors\<close> plays no part in the simulation
  and is left out of the object.
\<close>

datatype error =
    KeyError | IndexError | ZeroDivisionError | ValueError
  | OutOfBoundsDatetime | UnmodelledDateText

record country_config =
  population_base :: real
  tiktok_users_base :: real
  market_type :: string
  specialties :: "string list"

record analyzer =
  country :: string
  start_year :: int
  end_year :: int
  config :: country_config

record year_record =
  Year :: int
  Population :: real
  TikTok_Users :: real
  Active_Users :: real
  Time_Spent_Per_User :: real
  Videos_Uploaded :: real
  Likes_Count :: real
  Shares_Count :: real
  Comments_Count :: real
  Ad_Revenue :: real
  Creator_Earnings :: real
  E_Commerce_Revenue :: real
  Engagement_Rate :: real
  User_Growth_Rate :: real
  Virality_Score :: real
  Users_Under_25 :: real
  Users_25_34 :: real
  Users_Over_35 :: real

section \<open>Fallible operations\<close>

text \<open>
  Every operation of the source that can raise is a value of \<open>error + 'a\<close>:
  \<^verbatim>\<open>xs[0]\<close> (IndexError on an empty list), \<^verbatim>\<open>a / b\<close> (ZeroDivisionError),
  \<^verbatim>\<open>d[k]\<close> (KeyError) and the construction of a table from columns of unequal length
  (ValueError), and the date library's refusal of a date outside the range of its
  timestamps (OutOfBoundsDatetime). \<open>UnmodelledDateText\<close> is not an exception of the
  source: it marks the inputs of \<open>date_range\<close> that this model does not cover.
  \<open>and_then\<close> sequences two computations and stops at the first error;
  \<open>for_each\<close> is the loop \<^verbatim>\<open>for x in xs: out.append(body(x))\<close>.
\<close>

fun item0 :: "'a list \<Rightarrow> error + 'a" where
  "item0 [] = Inl IndexError"
| "item0 (x # xs) = Inr x"

definition true_div :: "real \<Rightarrow> real \<Rightarrow> error + real" where
  "true_div a b = (if b = 0 then Inl ZeroDivisionError else Inr (a / b))"

definition and_then :: "error + 'a \<Rightarrow> ('a \<Rightarrow> error + 'b) \<Rightarrow> error + 'b" where
  "and_then m f = (case m of Inl e \<Rightarrow> Inl e | Inr x \<Rightarrow> f x)"

fun for_each :: "('a \<Rightarrow> error + 'b) \<Rightarrow> 'a list \<Rightarrow> error + 'b list" where
  "for_each body [] = Inr []"
| "for_each body (x # xs) =
     and_then (body x) (\<lambda>y. and_then (for_each body xs) (\<lambda>ys. Inr (y # ys)))"

section \<open>Country configuration\<close>

definition configs :: "(string \<times> country_config) list" where
  "configs = [
    (''United States'', \<lparr>population_base = 331000000, tiktok_users_base = 100000000,
       market_type = ''mature'',
       specialties = [''entertainment'', ''influencers'', ''business'', ''ads'', ''music'']\<rparr>),
    (''China'', \<lparr>population_base = 1400000000, tiktok_users_base = 600000000,
       market_type = ''domestic'',
       specialties = [''e-commerce'', ''live-streaming'', ''education'', ''government'']\<rparr>),
    (''India'', \<lparr>population_base = 1380000000, tiktok_users_base = 200000000,
       market_type = ''emerging'',
       specialties = [''entertainment'', ''music'', ''dance'', ''regional_content'']\<rparr>),
    (''Brazil'', \<lparr>population_base = 213000000, tiktok_users_base = 82000000,
       market_type = ''growing'',
       specialties = [''music'', ''dance'', ''comedy'', ''social_causes'']\<rparr>),
    (''Indonesia'', \<lparr>population_base = 274000000, tiktok_users_base = 99000000,
       market_type = ''growing'',
       specialties = [''islamic_content'', ''comedy'', ''local_business'', ''education'']\<rparr>),
    (''Russia'', \<lparr>population_base = 144000000, tiktok_users_base = 50000000,
       market_type = ''regulated'',
       specialties = [''politics'', ''comedy'', ''challenges'', ''music'']\<rparr>),
    (''Mexico'', \<lparr>population_base = 128000000, tiktok_users_base = 57500000,
       market_type = ''growing'',
       specialties = [''music'', ''comedy'', ''beauty'', ''family_content'']\<rparr>),
    (''Vietnam'', \<lparr>population_base = 97300000, tiktok_users_base = 50000000,
       market_type = ''booming'',
       specialties = [''music'', ''dance'', ''comedy'', ''educational'']\<rparr>),
    (''Philippines'', \<lparr>population_base = 110000000, tiktok_users_base = 43500000,
       market_type = ''booming'',
       specialties = [''dance'', ''comedy'', ''family_content'', ''challenges'']\<rparr>),
    (''Thailand'', \<lparr>population_base = 70000000, tiktok_users_base = 40000000,
       market_type = ''mature'',
       specialties = [''beauty'', ''comedy'', ''food'', ''music'']\<rparr>),
    (''United Kingdom'', \<lparr>population_base = 67000000, tiktok_users_base = 23000000,
       market_type = ''mature'',
       specialties = [''comedy'', ''politics'', ''business'', ''education'']\<rparr>),
    (''France'', \<lparr>population_base = 68000000, tiktok_users_base = 24000000,
       market_type = ''mature'',
       specialties = [''humor'', ''politics'', ''culture'', ''fashion'']\<rparr>),
    (''Germany'', \<lparr>population_base = 83000000, tiktok_users_base = 22000000,
       market_type = ''growing'',
       specialties = [''comedy'', ''education'', ''politics'', ''business'']\<rparr>),
    (''Japan'', \<lparr>population_base = 126000000, tiktok_users_base = 17000000,
       market_type = ''emerging'',
       specialties = [''anime'', ''music'', ''beauty'', ''comedy'']\<rparr>),
    (''South Korea'', \<lparr>population_base = 52000000, tiktok_users_base = 15000000,
       market_type = ''growing'',
       specialties = [''k-pop'', ''beauty'', ''fashion'', ''dance'']\<rparr>),
    (''default'', \<lparr>population_base = 50000000, tiktok_users_base = 10000000,
       market_type = ''emerging'',
       specialties = [''entertainment'', ''music'', ''comedy'']\<rparr>)]"

text \<open>
  \<^verbatim>\<open>configs.get(self.country, configs["default"])\<close>: the default argument is evaluated
  first (\<^verbatim>\<open>configs["default"]\<close> raises KeyError when the key is absent), then the country
  is looked up with that fallback.
\<close>

definition get_country_config :: "string \<Rightarrow> error + country_config" where
  "get_country_config country_name =
     (case map_of configs ''default'' of
        None \<Rightarrow> Inl KeyError
      | Some fallback \<Rightarrow>
          Inr (case map_of configs country_name of None \<Rightarrow> fallback | Some c \<Rightarrow> c))"

text \<open>The constructor \<^verbatim>\<open>__init__\<close>.\<close>

definition TikTokCountryAnalyzer :: "string \<Rightarrow> error + analyzer" where
  "TikTokCountryAnalyzer country_name =
     and_then (get_country_config country_name) (\<lambda>c.
       Inr \<lparr>country = country_name, start_year = 2016, end_year = 2025, config = c\<rparr>)"

text \<open>
  \<^verbatim>\<open>pd.date_range(start=f'{start}-01-01', end=f'{end}-12-31', freq='Y')\<close> is the list of
  the year ends from \<open>start\<close> to \<open>end\<close>, one date per calendar year, and empty when
  \<open>end\<close> is before \<open>start\<close>. The library's timestamps reach from 1677-09-21 to
  2262-04-11: the start date, rolled forward to its year end, needs a year from 1678 to
  2261, the end date a year from 1677 to 2261, and the call raises otherwise. Only a year
  from 1000 to 9999 is written with four digits by the f-string; what the date parser makes
  of any other text (a two-digit year is read as a year of the current or the last century)
  is not modelled, and the model stops there with \<open>UnmodelledDateText\<close>. The constructor
  sets the years 2016 and 2025, where the model is exact.
\<close>

definition date_range :: "int \<Rightarrow> int \<Rightarrow> error + int list" where
  "date_range first_year last_year =
     (if first_year < 1000 \<or> 9999 < first_year \<or> last_year < 1000 \<or> 9999 < last_year
      then Inl UnmodelledDateText
      else if 1678 \<le> first_year \<and> first_year \<le> 2261 \<and> 1677 \<le> last_year \<and> last_year \<le> 2261
      then Inr [first_year..last_year]
      else Inl OutOfBoundsDatetime)"

section \<open>Simulation stages\<close>

text \<open>
  Each method runs \<^verbatim>\<open>for i, date in enumerate(dates)\<close> and appends one value per date.
  Several of them obtain an upstream value by calling the upstream method on the
  one-element list \<^verbatim>\<open>[date]\<close> and taking element \<^verbatim>\<open>[0]\<close> of the result.
\<close>

definition simulate_population :: "analyzer \<Rightarrow> int list \<Rightarrow> real list" where
  "simulate_population self dates =
     (let base_population = population_base (config self) in
      map (\<lambda>(i, date).
        let growth_rate =
              (if market_type (config self) = ''mature'' then 0.004
               else if market_type (config self) = ''booming'' then 0.012
               else 0.008);
            growth = 1 + growth_rate * real i
        in base_population * growth) (enumerate 0 dates))"

definition simulate_tiktok_users :: "analyzer \<Rightarrow> int list \<Rightarrow> real list" where
  "simulate_tiktok_users self dates =
     (let base_users = tiktok_users_base (config self) in
      map (\<lambda>(i, date).
        let year = date;
            growth_rate =
              (if market_type (config self) = ''mature'' then
                 (if year < 2020 then 0.35 else 0.08)
               else if market_type (config self) = ''booming'' then 0.25
               else if market_type (config self) = ''emerging'' then 0.40
               else 0.15);
            growth = 1 + growth_rate * real i;
            max_percentage = (if market_type (config self) \<noteq> ''domestic'' then 0.65 else 0.45);
            max_users = population_base (config self) * max_percentage
        in min (base_users * growth) max_users) (enumerate 0 dates))"

definition simulate_active_users :: "analyzer \<Rightarrow> int list \<Rightarrow> error + real list" where
  "simulate_active_users self dates =
     for_each (\<lambda>(i, date).
       let active_rate =
             (if market_type (config self) = ''mature'' then 0.75
              else if market_type (config self) = ''booming'' then 0.85
              else 0.70)
       in and_then (item0 (simulate_tiktok_users self [date])) (\<lambda>users.
            Inr (users * active_rate))) (enumerate 0 dates)"

definition simulate_time_spent :: "analyzer \<Rightarrow> int list \<Rightarrow> real list" where
  "simulate_time_spent self dates =
     map (\<lambda>(i, date).
       let year = date;
           base_time = 45;
           time = (if year < 2018 then base_time * 0.7
                   else if year < 2020 then base_time * 0.9
                   else if year < 2022 then base_time * 1.1
                   else base_time * 1.2)
       in (if market_type (config self) = ''booming'' then time * 1.15
           else if market_type (config self) = ''emerging'' then time * 1.25
           else time)) (enumerate 0 dates)"

definition simulate_videos_uploaded :: "analyzer \<Rightarrow> int list \<Rightarrow> error + real list" where
  "simulate_videos_uploaded self dates =
     for_each (\<lambda>(i, date).
       let year = date;
           videos_per_user = (if year < 2018 then 0.8
                              else if year < 2020 then 1.2
                              else if year < 2022 then 1.5
                              else 1.8);
           videos_per_user =
             (if market_type (config self) = ''booming'' then videos_per_user * 1.3
              else if ''comedy'' \<in> set (specialties (config self)) then videos_per_user * 1.2
              else videos_per_user)
       in and_then (and_then (simulate_active_users self [date]) item0) (\<lambda>active.
            Inr (active * videos_per_user * 365))) (enumerate 0 dates)"

definition simulate_likes_count :: "analyzer \<Rightarrow> int list \<Rightarrow> error + real list" where
  "simulate_likes_count self dates =
     for_each (\<lambda>(i, date).
       let year = date;
           likes_per_video = (if year < 2018 then 150
                              else if year < 2020 then 250
                              else if year < 2022 then 350
                              else 400)
       in and_then (and_then (simulate_videos_uploaded self [date]) item0) (\<lambda>videos.
            Inr (videos * likes_per_video))) (enumerate 0 dates)"

definition simulate_shares_count :: "analyzer \<Rightarrow> int list \<Rightarrow> error + real list" where
  "simulate_shares_count self dates =
     for_each (\<lambda>(i, date).
       let share_ratio = 0.08
       in and_then (and_then (simulate_likes_count self [date]) item0) (\<lambda>likes.
            Inr (likes * share_ratio))) (enumerate 0 dates)"

definition simulate_comments_count :: "analyzer \<Rightarrow> int list \<Rightarrow> error + real list" where
  "simulate_comments_count self dates =
     for_each (\<lambda>(i, date).
       let comment_ratio = 0.05
       in and_then (and_then (simulate_likes_count self [date]) item0) (\<lambda>likes.
            Inr (likes * comment_ratio))) (enumerate 0 dates)"

definition simulate_ad_revenue :: "analyzer \<Rightarrow> int list \<Rightarrow> error + real list" where
  "simulate_ad_revenue self dates =
     for_each (\<lambda>(i, date).
       let year = date;
           revenue_per_user = (if year < 2018 then 2.5
                               else if year < 2020 then 5.0
                               else if year < 2022 then 8.0
                               else 12.0);
           revenue_per_user =
             (if market_type (config self) = ''mature'' then revenue_per_user * 1.5
              else if market_type (config self) = ''regulated'' then revenue_per_user * 0.7
              else revenue_per_user)
       in and_then (and_then (simulate_active_users self [date]) item0) (\<lambda>active.
            Inr (active * revenue_per_user))) (enumerate 0 dates)"

definition simulate_creator_earnings :: "analyzer \<Rightarrow> int list \<Rightarrow> error + real list" where
  "simulate_creator_earnings self dates =
     for_each (\<lambda>(i, date).
       let creator_ratio = 0.25
       in and_then (and_then (simulate_ad_revenue self [date]) item0) (\<lambda>ads.
            Inr (ads * creator_ratio))) (enumerate 0 dates)"

definition simulate_ecommerce_revenue :: "analyzer \<Rightarrow> int list \<Rightarrow> error + real list" where
  "simulate_ecommerce_revenue self dates =
     for_each (\<lambda>(i, date).
       let year = date
       in and_then
            (if year < 2019 then Inr 0
             else if year < 2021 then
               and_then (and_then (simulate_ad_revenue self [date]) item0) (\<lambda>ads. Inr (ads * 0.1))
             else if year < 2023 then
               and_then (and_then (simulate_ad_revenue self [date]) item0) (\<lambda>ads. Inr (ads * 0.2))
             else
               and_then (and_then (simulate_ad_revenue self [date]) item0) (\<lambda>ads. Inr (ads * 0.3)))
            (\<lambda>ecommerce_revenue.
               Inr (if ''e-commerce'' \<in> set (specialties (config self))
                    then ecommerce_revenue * 1.5 else ecommerce_revenue))) (enumerate 0 dates)"

definition simulate_engagement_rate :: "analyzer \<Rightarrow> int list \<Rightarrow> real list" where
  "simulate_engagement_rate self dates =
     map (\<lambda>(i, date).
       let year = date;
           rate = (if year < 2018 then 0.12
                   else if year < 2020 then 0.16
                   else if year < 2022 then 0.18
                   else 0.20)
       in (if market_type (config self) = ''booming'' then rate * 1.15 else rate))
       (enumerate 0 dates)"

text \<open>
  The growth-rate loop carries \<^verbatim>\<open>previous_users\<close> from one iteration to the next; the
  division is guarded by \<^verbatim>\<open>if previous_users > 0 else 0\<close>.
\<close>

fun user_growth_loop :: "analyzer \<Rightarrow> real \<Rightarrow> (nat \<times> int) list \<Rightarrow> error + real list" where
  "user_growth_loop self previous_users [] = Inr []"
| "user_growth_loop self previous_users ((i, date) # rest) =
     and_then (item0 (simulate_tiktok_users self [date])) (\<lambda>current_users.
     and_then (if previous_users > 0
               then true_div (current_users - previous_users) previous_users
               else Inr 0) (\<lambda>growth_rate.
     and_then (user_growth_loop self current_users rest) (\<lambda>growth_rates.
       Inr (growth_rate # growth_rates))))"

definition simulate_user_growth_rate :: "analyzer \<Rightarrow> int list \<Rightarrow> error + real list" where
  "simulate_user_growth_rate self dates =
     user_growth_loop self (tiktok_users_base (config self)) (enumerate 0 dates)"

definition simulate_virality_score :: "analyzer \<Rightarrow> int list \<Rightarrow> real list" where
  "simulate_virality_score self dates =
     map (\<lambda>(i, date).
       let year = date;
           score = (if year < 2018 then 1.2
                    else if year < 2020 then 1.5
                    else if year < 2022 then 1.8
                    else 2.0)
       in (if ''music'' \<in> set (specialties (config self))
              \<or> ''dance'' \<in> set (specialties (config self))
           then score * 1.2 else score)) (enumerate 0 dates)"

definition simulate_young_users :: "analyzer \<Rightarrow> int list \<Rightarrow> error + real list" where
  "simulate_young_users self dates =
     for_each (\<lambda>(i, date).
       let young_ratio = (if market_type (config self) = ''mature'' then 0.45 else 0.60)
       in and_then (item0 (simulate_tiktok_users self [date])) (\<lambda>users.
            Inr (users * young_ratio))) (enumerate 0 dates)"

definition simulate_adult_users :: "analyzer \<Rightarrow> int list \<Rightarrow> error + real list" where
  "simulate_adult_users self dates =
     for_each (\<lambda>(i, date).
       let adult_ratio = 0.30
       in and_then (item0 (simulate_tiktok_users self [date])) (\<lambda>users.
            Inr (users * adult_ratio))) (enumerate 0 dates)"

definition simulate_older_users :: "analyzer \<Rightarrow> int list \<Rightarrow> error + real list" where
  "simulate_older_users self dates =
     for_each (\<lambda>(i, date).
       let young_ratio = (if market_type (config self) = ''mature'' then 0.45 else 0.60);
           adult_ratio = 0.30;
           older_ratio = 1 - young_ratio - adult_ratio
       in and_then (item0 (simulate_tiktok_users self [date])) (\<lambda>users.
            Inr (users * older_ratio))) (enumerate 0 dates)"

section \<open>Table construction and trend adjustment\<close>

text \<open>
  \<^verbatim>\<open>pd.DataFrame(data)\<close> turns the dictionary of columns into a table with one record
  per index; it raises ValueError unless all columns have the same length.
\<close>

definition DataFrame ::
  "int list \<Rightarrow> real list \<Rightarrow> real list \<Rightarrow> real list \<Rightarrow> real list \<Rightarrow> real list \<Rightarrow>
   real list \<Rightarrow> real list \<Rightarrow> real list \<Rightarrow> real list \<Rightarrow> real list \<Rightarrow> real list \<Rightarrow>
   real list \<Rightarrow> real list \<Rightarrow> real list \<Rightarrow> real list \<Rightarrow> real list \<Rightarrow> real list \<Rightarrow>
   error + year_record list" where
  "DataFrame years population users active time_spent videos likes shares comments
      ads creators ecommerce engagement growth virality young adult older =
     (if list_all (\<lambda>column. length column = length years)
           [population, users, active, time_spent, videos, likes, shares, comments,
            ads, creators, ecommerce, engagement, growth, virality, young, adult, older]
      then Inr (map (\<lambda>k.
             \<lparr>Year = years ! k, Population = population ! k, TikTok_Users = users ! k,
              Active_Users = active ! k, Time_Spent_Per_User = time_spent ! k,
              Videos_Uploaded = videos ! k, Likes_Count = likes ! k,
              Shares_Count = shares ! k, Comments_Count = comments ! k,
              Ad_Revenue = ads ! k, Creator_Earnings = creators ! k,
              E_Commerce_Revenue = ecommerce ! k, Engagement_Rate = engagement ! k,
              User_Growth_Rate = growth ! k, Virality_Score = virality ! k,
              Users_Under_25 = young ! k, Users_25_34 = adult ! k,
              Users_Over_35 = older ! k\<rparr>) [0..<length years])
      else Inl ValueError)"

text \<open>
  The body of the loop of \<^verbatim>\<open>_add_country_trends\<close> for one row: the year is read from the
  row, then the five adjustments are applied to the row of the table one after the other.
\<close>

definition adjust_row :: "analyzer \<Rightarrow> year_record \<Rightarrow> year_record" where
  "adjust_row self row =
     (let year = Year row;
          r1 = (if 2016 \<le> year \<and> year \<le> 2018
                then row\<lparr>User_Growth_Rate := User_Growth_Rate row * 1.2\<rparr> else row);
          r2 = (if 2019 \<le> year \<and> year \<le> 2020
                then r1\<lparr>Ad_Revenue := Ad_Revenue r1 * 1.3\<rparr> else r1);
          r3 = (if 2020 \<le> year \<and> year \<le> 2021
                then r2\<lparr>Time_Spent_Per_User := Time_Spent_Per_User r2 * 1.25,
                        Active_Users := Active_Users r2 * 1.15\<rparr> else r2);
          r4 = (if 2021 \<le> year \<and> year \<le> 2023
                then (if ''e-commerce'' \<in> set (specialties (config self))
                      then r3\<lparr>E_Commerce_Revenue := E_Commerce_Revenue r3 * 1.4\<rparr> else r3)
                else r3);
          r5 = (if year \<ge> 2023
                then (if market_type (config self) = ''mature''
                      then r4\<lparr>User_Growth_Rate := User_Growth_Rate r4 * 0.7\<rparr> else r4)
                else r4)
      in r5)"

text \<open>
  \<^verbatim>\<open>for i, row in df.iterrows()\<close> visits the indices in order and updates the table in
  place at index \<open>i\<close>.
\<close>

fun trends_loop :: "analyzer \<Rightarrow> nat list \<Rightarrow> year_record list \<Rightarrow> year_record list" where
  "trends_loop self [] df = df"
| "trends_loop self (i # rest) df = trends_loop self rest (df[i := adjust_row self (df ! i)])"

definition add_country_trends :: "analyzer \<Rightarrow> year_record list \<Rightarrow> year_record list" where
  "add_country_trends self df = trends_loop self [0..<length df] df"

text \<open>
  \<^verbatim>\<open>generate_tiktok_data\<close> in two parts: \<open>simulated_table\<close> is the table as built by
  \<^verbatim>\<open>pd.DataFrame(data)\<close>, before \<^verbatim>\<open>_add_country_trends\<close> runs on it; the columns are
  computed in the order of the source.
\<close>

definition simulated_table :: "analyzer \<Rightarrow> error + year_record list" where
  "simulated_table self =
     and_then (date_range (start_year self) (end_year self)) (\<lambda>dates.
     (let years = dates;
          population = simulate_population self dates;
          users = simulate_tiktok_users self dates
      in and_then (simulate_active_users self dates) (\<lambda>active.
         let time_spent = simulate_time_spent self dates
         in and_then (simulate_videos_uploaded self dates) (\<lambda>videos.
            and_then (simulate_likes_count self dates) (\<lambda>likes.
            and_then (simulate_shares_count self dates) (\<lambda>shares.
            and_then (simulate_comments_count self dates) (\<lambda>comments.
            and_then (simulate_ad_revenue self dates) (\<lambda>ads.
            and_then (simulate_creator_earnings self dates) (\<lambda>creators.
            and_then (simulate_ecommerce_revenue self dates) (\<lambda>ecommerce.
            let engagement = simulate_engagement_rate self dates
            in and_then (simulate_user_growth_rate self dates) (\<lambda>growth.
               let virality = simulate_virality_score self dates
               in and_then (simulate_young_users self dates) (\<lambda>young.
                  and_then (simulate_adult_users self dates) (\<lambda>adult.
                  and_then (simulate_older_users self dates) (\<lambda>older.
                    DataFrame years population users active time_spent videos likes shares
                      comments ads creators ecommerce engagement growth virality
                      young adult older))))))))))))))"

definition generate_tiktok_data :: "analyzer \<Rightarrow> error + year_record list" where
  "generate_tiktok_data self =
     and_then (simulated_table self) (\<lambda>df. Inr (add_country_trends self df))"

text \<open>
  A complete run as in \<^verbatim>\<open>main\<close>: construct the analyzer for a country name, then
  generate its table.
\<close>

definition run :: "string \<Rightarrow> error + year_record list" where
  "run country_name = and_then (TikTokCountryAnalyzer country_name) generate_tiktok_data"

section \<open>Closed forms of the stages\<close>

text \<open>
  The functions of this section are not in the source: they name what each stage computes
  for one date, and the lemmas below prove that the stages compute exactly that.
  A call on the one-element list \<^verbatim>\<open>[date]\<close> runs the loop with index \<open>0\<close>, so
  \<^verbatim>\<open>_simulate_tiktok_users([date])[0]\<close> is \<open>single_date_users\<close> whatever the date.
\<close>

definition ceiling_fraction :: "analyzer \<Rightarrow> real" where
  "ceiling_fraction self = (if market_type (config self) = ''domestic'' then 0.45 else 0.65)"

definition single_date_users :: "analyzer \<Rightarrow> real" where
  "single_date_users self =
     min (tiktok_users_base (config self)) (population_base (config self) * ceiling_fraction self)"

definition active_rate :: "analyzer \<Rightarrow> real" where
  "active_rate self =
     (if market_type (config self) = ''mature'' then 0.75
      else if market_type (config self) = ''booming'' then 0.85 else 0.70)"

definition active_at :: "analyzer \<Rightarrow> real" where
  "active_at self = single_date_users self * active_rate self"

definition videos_at :: "analyzer \<Rightarrow> int \<Rightarrow> real" where
  "videos_at self year =
     active_at self *
       ((if year < 2018 then 0.8 else if year < 2020 then 1.2
         else if year < 2022 then 1.5 else 1.8) *
        (if market_type (config self) = ''booming'' then 1.3
         else if ''comedy'' \<in> set (specialties (config self)) then 1.2 else 1)) * 365"

definition likes_at :: "analyzer \<Rightarrow> int \<Rightarrow> real" where
  "likes_at self year =
     videos_at self year *
       (if year < 2018 then 150 else if year < 2020 then 250
        else if year < 2022 then 350 else 400)"

definition ads_at :: "analyzer \<Rightarrow> int \<Rightarrow> real" where
  "ads_at self year =
     active_at self *
       ((if year < 2018 then 2.5 else if year < 2020 then 5.0
         else if year < 2022 then 8.0 else 12.0) *
        (if market_type (config self) = ''mature'' then 1.5
         else if market_type (config self) = ''regulated'' then 0.7 else 1))"

definition ecommerce_at :: "analyzer \<Rightarrow> int \<Rightarrow> real" where
  "ecommerce_at self year =
     (if year < 2019 then 0 else if year < 2021 then ads_at self year * 0.1
      else if year < 2023 then ads_at self year * 0.2 else ads_at self year * 0.3) *
     (if ''e-commerce'' \<in> set (specialties (config self)) then 1.5 else 1)"

definition young_ratio :: "analyzer \<Rightarrow> real" where
  "young_ratio self = (if market_type (config self) = ''mature'' then 0.45 else 0.60)"

definition first_growth_rate :: "analyzer \<Rightarrow> real" where
  "first_growth_rate self =
     (if tiktok_users_base (config self) > 0
      then (single_date_users self - tiktok_users_base (config self))
             / tiktok_users_base (config self)
      else 0)"

definition growth_column :: "analyzer \<Rightarrow> int list \<Rightarrow> real list" where
  "growth_column self dates =
     (case dates of [] \<Rightarrow> [] | d # ds \<Rightarrow> first_growth_rate self # replicate (length ds) 0)"

definition simulated_row :: "analyzer \<Rightarrow> int list \<Rightarrow> nat \<Rightarrow> year_record" where
  "simulated_row self dates k =
     \<lparr>Year = dates ! k,
      Population = simulate_population self dates ! k,
      TikTok_Users = simulate_tiktok_users self dates ! k,
      Active_Users = active_at self,
      Time_Spent_Per_User = simulate_time_spent self dates ! k,
      Videos_Uploaded = videos_at self (dates ! k),
      Likes_Count = likes_at self (dates ! k),
      Shares_Count = likes_at self (dates ! k) * 0.08,
      Comments_Count = likes_at self (dates ! k) * 0.05,
      Ad_Revenue = ads_at self (dates ! k),
      Creator_Earnings = ads_at self (dates ! k) * 0.25,
      E_Commerce_Revenue = ecommerce_at self (dates ! k),
      Engagement_Rate = simulate_engagement_rate self dates ! k,
      User_Growth_Rate = growth_column self dates ! k,
      Virality_Score = simulate_virality_score self dates ! k,
      Users_Under_25 = single_date_users self * young_ratio self,
      Users_25_34 = single_date_users self * 0.30,
      Users_Over_35 = single_date_users self * (1 - young_ratio self - 0.30)\<rparr>"

subsection \<open>The error monad and the loops\<close>

lemma and_then_Inr [simp]: "and_then (Inr x) f = f x"
  by (simp add: and_then_def)

lemma and_then_Inl [simp]: "and_then (Inl e) f = Inl e"
  by (simp add: and_then_def)

lemma tiktok_users_single:
  "simulate_tiktok_users self [date] = [single_date_users self]"
  by (simp add: simulate_tiktok_users_def single_date_users_def ceiling_fraction_def)

lemma for_each_closed:
  assumes "\<And>i d. body (i, d) = Inr (g d)"
  shows "for_each body (enumerate n dates) = Inr (map g dates)"
  by (induction dates arbitrary: n) (simp_all add: assms)

lemma active_users_closed:
  "simulate_active_users self dates = Inr (map (\<lambda>date. active_at self) dates)"
  unfolding simulate_active_users_def
  by (rule for_each_closed)
     (simp add: tiktok_users_single active_rate_def active_at_def Let_def)

lemma videos_uploaded_closed:
  "simulate_videos_uploaded self dates = Inr (map (videos_at self) dates)"
  unfolding simulate_videos_uploaded_def
  by (rule for_each_closed) (simp add: active_users_closed videos_at_def Let_def)

lemma likes_count_closed:
  "simulate_likes_count self dates = Inr (map (likes_at self) dates)"
  unfolding simulate_likes_count_def
  by (rule for_each_closed) (simp add: videos_uploaded_closed likes_at_def Let_def)

lemma shares_count_closed:
  "simulate_shares_count self dates = Inr (map (\<lambda>date. likes_at self date * 0.08) dates)"
  unfolding simulate_shares_count_def
  by (rule for_each_closed) (simp add: likes_count_closed Let_def)

lemma comments_count_closed:
  "simulate_comments_count self dates = Inr (map (\<lambda>date. likes_at self date * 0.05) dates)"
  unfolding simulate_comments_count_def
  by (rule for_each_closed) (simp add: likes_count_closed Let_def)

lemma ad_revenue_closed:
  "simulate_ad_revenue self dates = Inr (map (ads_at self) dates)"
  unfolding simulate_ad_revenue_def
  by (rule for_each_closed) (simp add: active_users_closed ads_at_def Let_def)

lemma creator_earnings_closed:
  "simulate_creator_earnings self dates = Inr (map (\<lambda>date. ads_at self date * 0.25) dates)"
  unfolding simulate_creator_earnings_def
  by (rule for_each_closed) (simp add: ad_revenue_closed Let_def)

lemma ecommerce_revenue_closed:
  "simulate_ecommerce_revenue self dates = Inr (map (ecommerce_at self) dates)"
  unfolding simulate_ecommerce_revenue_def
  by (rule for_each_closed) (simp add: ad_revenue_closed ecommerce_at_def Let_def)

lemma young_users_closed:
  "simulate_young_users self dates =
     Inr (map (\<lambda>date. single_date_users self * young_ratio self) dates)"
  unfolding simulate_young_users_def
  by (rule for_each_closed) (simp add: tiktok_users_single young_ratio_def Let_def)

lemma adult_users_closed:
  "simulate_adult_users self dates = Inr (map (\<lambda>date. single_date_users self * 0.30) dates)"
  unfolding simulate_adult_users_def
  by (rule for_each_closed) (simp add: tiktok_users_single Let_def)

lemma older_users_closed:
  "simulate_older_users self dates =
     Inr (map (\<lambda>date. single_date_users self * (1 - young_ratio self - 0.30)) dates)"
  unfolding simulate_older_users_def
  by (rule for_each_closed) (simp add: tiktok_users_single young_ratio_def Let_def)

lemma growth_loop_steady:
  "user_growth_loop self (single_date_users self) (enumerate n dates)
     = Inr (replicate (length dates) 0)"
  by (induction dates arbitrary: n) (simp_all add: tiktok_users_single true_div_def)

lemma user_growth_rate_closed:
  "simulate_user_growth_rate self dates = Inr (growth_column self dates)"
  unfolding simulate_user_growth_rate_def growth_column_def
  by (cases dates)
     (simp_all add: tiktok_users_single true_div_def growth_loop_steady first_growth_rate_def)


lemma length_growth_column: "length (growth_column self dates) = length dates"
  by (cases dates) (simp_all add: growth_column_def)

lemma length_pure_columns:
  "length (simulate_population self dates) = length dates"
  "length (simulate_tiktok_users self dates) = length dates"
  "length (simulate_time_spent self dates) = length dates"
  "length (simulate_engagement_rate self dates) = length dates"
  "length (simulate_virality_score self dates) = length dates"
  by (simp_all add: simulate_population_def simulate_tiktok_users_def simulate_time_spent_def
        simulate_engagement_rate_def simulate_virality_score_def)

lemma date_range_program: "date_range 2016 2025 = Inr [2016..2025]"
  by (simp add: date_range_def)


lemma simulated_table_closed:
  assumes "date_range (start_year self) (end_year self) = Inr dates"
  shows "simulated_table self = Inr (map (simulated_row self dates) [0..<length dates])"
  unfolding simulated_table_def assms Let_def active_users_closed videos_uploaded_closed
    likes_count_closed shares_count_closed comments_count_closed ad_revenue_closed
    creator_earnings_closed ecommerce_revenue_closed user_growth_rate_closed
    young_users_closed adult_users_closed older_users_closed and_then_Inr DataFrame_def
  by (simp add: length_pure_columns length_growth_column simulated_row_def)

lemma trends_loop_from:
  "k \<le> length df \<Longrightarrow>
     trends_loop self [k..<length df] df = take k df @ map (adjust_row self) (drop k df)"
proof (induction "length df - k" arbitrary: k df)
  case 0
  then show ?case by simp
next
  case (Suc m)
  then have k: "k < length df" by simp
  let ?df = "df[k := adjust_row self (df ! k)]"
  have "trends_loop self [k..<length df] df = trends_loop self [Suc k..<length ?df] ?df"
    using k by (simp add: upt_conv_Cons)
  also have "\<dots> = take (Suc k) ?df @ map (adjust_row self) (drop (Suc k) ?df)"
    using Suc.hyps(1)[of ?df "Suc k"] Suc.hyps(2) k by simp
  also have "\<dots> = take k df @ map (adjust_row self) (drop k df)"
    using k by (simp add: take_Suc_conv_app_nth Cons_nth_drop_Suc[symmetric])
  finally show ?case .
qed

lemma add_country_trends_map: "add_country_trends self df = map (adjust_row self) df"
  unfolding add_country_trends_def using trends_loop_from[of 0 df self] by simp

lemma generate_closed:
  assumes "date_range (start_year self) (end_year self) = Inr dates"
  shows "generate_tiktok_data self =
     Inr (map (\<lambda>k. adjust_row self (simulated_row self dates k)) [0..<length dates])"
  unfolding generate_tiktok_data_def simulated_table_closed[OF assms] and_then_Inr
    add_country_trends_map
  by (simp add: comp_def)

lemma generate_stops:
  assumes "date_range (start_year self) (end_year self) = Inl e"
  shows "generate_tiktok_data self = Inl e"
  unfolding generate_tiktok_data_def simulated_table_def assms and_then_Inl
  by (rule refl)

subsection \<open>Rows of the generated table\<close>

lemma adjust_row_frame:
  "Year (adjust_row self r) = Year r"
  "Population (adjust_row self r) = Population r"
  "TikTok_Users (adjust_row self r) = TikTok_Users r"
  "Videos_Uploaded (adjust_row self r) = Videos_Uploaded r"
  "Likes_Count (adjust_row self r) = Likes_Count r"
  "Shares_Count (adjust_row self r) = Shares_Count r"
  "Comments_Count (adjust_row self r) = Comments_Count r"
  "Creator_Earnings (adjust_row self r) = Creator_Earnings r"
  "Engagement_Rate (adjust_row self r) = Engagement_Rate r"
  "Virality_Score (adjust_row self r) = Virality_Score r"
  "Users_Under_25 (adjust_row self r) = Users_Under_25 r"
  "Users_25_34 (adjust_row self r) = Users_25_34 r"
  "Users_Over_35 (adjust_row self r) = Users_Over_35 r"
  by (simp_all add: adjust_row_def Let_def)

lemma adjust_row_effect:
  "User_Growth_Rate (adjust_row self r) =
     (if 2016 \<le> Year r \<and> Year r \<le> 2018 then User_Growth_Rate r * 1.2
      else if 2023 \<le> Year r \<and> market_type (config self) = ''mature''
      then User_Growth_Rate r * 0.7 else User_Growth_Rate r)"
  "Ad_Revenue (adjust_row self r) =
     (if 2019 \<le> Year r \<and> Year r \<le> 2020 then Ad_Revenue r * 1.3 else Ad_Revenue r)"
  "Time_Spent_Per_User (adjust_row self r) =
     (if 2020 \<le> Year r \<and> Year r \<le> 2021 then Time_Spent_Per_User r * 1.25
      else Time_Spent_Per_User r)"
  "Active_Users (adjust_row self r) =
     (if 2020 \<le> Year r \<and> Year r \<le> 2021 then Active_Users r * 1.15 else Active_Users r)"
  "E_Commerce_Revenue (adjust_row self r) =
     (if 2021 \<le> Year r \<and> Year r \<le> 2023 \<and> ''e-commerce'' \<in> set (specialties (config self))
      then E_Commerce_Revenue r * 1.4 else E_Commerce_Revenue r)"
  by (simp_all add: adjust_row_def Let_def)

lemma generate_rows:
  assumes "date_range (start_year self) (end_year self) = Inr dates"
    and "generate_tiktok_data self = Inr df"
  shows "length df = length dates"
    and "k < length df \<Longrightarrow> df ! k = adjust_row self (simulated_row self dates k)"
  using assms(2) unfolding generate_closed[OF assms(1)] by auto

lemma tiktok_users_nth_form:
  "k < length dates \<Longrightarrow>
     \<exists>x. simulate_tiktok_users self dates ! k =
           min x (population_base (config self) *
                  (if market_type (config self) \<noteq> ''domestic'' then 0.65 else 0.45))"
  unfolding simulate_tiktok_users_def Let_def
  by (simp only: nth_map length_enumerate nth_enumerate_eq prod.case) blast

lemma tiktok_users_nth:
  assumes "k < length dates"
  shows "simulate_tiktok_users self dates ! k
           \<le> population_base (config self) * ceiling_fraction self"
proof -
  have c: "ceiling_fraction self = (if market_type (config self) \<noteq> ''domestic'' then 0.65 else 0.45)"
    by (simp add: ceiling_fraction_def)
  from tiktok_users_nth_form[OF assms, of self] show ?thesis
    unfolding c by (auto simp only: min.cobounded2)
qed

lemma united_states_analyzer:
  "TikTokCountryAnalyzer ''United States'' =
     Inr \<lparr>country = ''United States'', start_year = 2016, end_year = 2025,
          config = \<lparr>population_base = 331000000, tiktok_users_base = 100000000,
                     market_type = ''mature'',
                     specialties = [''entertainment'', ''influencers'', ''business'',
                                    ''ads'', ''music'']\<rparr>\<rparr>"
  by (simp add: TikTokCountryAnalyzer_def get_country_config_def configs_def)

subsection \<open>The growth-rate loop and the configured profiles\<close>



lemma generate_defined:
  assumes "date_range (start_year self) (end_year self) = Inr dates"
  shows "\<exists>df. generate_tiktok_data self = Inr df \<and> length df = length dates"
  by (simp add: generate_closed[OF assms])


lemma configured_base_below_ceiling:
  "c \<in> snd ` set configs \<Longrightarrow>
     tiktok_users_base c \<le> population_base c *
       (if market_type c = ''domestic'' then 0.45 else 0.65)"
  by (auto simp add: configs_def)

lemma configured_single_date_users:
  "config self \<in> snd ` set configs \<Longrightarrow> single_date_users self = tiktok_users_base (config self)"
  using configured_base_below_ceiling[of "config self"]
  by (simp add: single_date_users_def ceiling_fraction_def min_def)

lemma configured_growth_column:
  assumes "config self \<in> snd ` set configs" and "k < length dates"
  shows "growth_column self dates ! k = 0"
proof -
  have "first_growth_rate self = 0"
    by (simp add: first_growth_rate_def configured_single_date_users[OF assms(1)])
  with assms(2) show ?thesis
    by (cases dates; cases k) (simp_all add: growth_column_def)
qed

subsection \<open>Dependence on the object and the United States rows\<close>

lemma stage_values_by_config:
  assumes "config a = config b"
  shows "single_date_users a = single_date_users b"
    and "active_at a = active_at b"
    and "videos_at a = videos_at b"
    and "likes_at a = likes_at b"
    and "ads_at a = ads_at b"
    and "ecommerce_at a = ecommerce_at b"
    and "young_ratio a = young_ratio b"
    and "growth_column a = growth_column b"
    and "simulate_population a = simulate_population b"
    and "simulate_tiktok_users a = simulate_tiktok_users b"
    and "simulate_time_spent a = simulate_time_spent b"
    and "simulate_engagement_rate a = simulate_engagement_rate b"
    and "simulate_virality_score a = simulate_virality_score b"
    and "adjust_row a = adjust_row b"
  unfolding fun_eq_iff single_date_users_def ceiling_fraction_def active_at_def active_rate_def
    videos_at_def likes_at_def ads_at_def ecommerce_at_def young_ratio_def growth_column_def
    first_growth_rate_def simulate_population_def simulate_tiktok_users_def
    simulate_time_spent_def simulate_engagement_rate_def simulate_virality_score_def
    adjust_row_def assms
  by (rule refl allI)+

lemma generate_by_attributes:
  assumes "config a = config b" and "start_year a = start_year b" and "end_year a = end_year b"
  shows "generate_tiktok_data a = generate_tiktok_data b"
proof (cases "date_range (start_year b) (end_year b)")
  case (Inl e)
  then have "date_range (start_year a) (end_year a) = Inl e"
    by (simp add: assms(2,3))
  with Inl show ?thesis
    by (simp add: generate_stops)
next
  case (Inr dates)
  then have "date_range (start_year a) (end_year a) = Inr dates"
    by (simp add: assms(2,3))
  with Inr show ?thesis
    unfolding generate_closed[OF Inr] generate_closed[OF \<open>date_range (start_year a) (end_year a) = Inr dates\<close>]
      simulated_row_def stage_values_by_config[OF assms(1)]
    by (rule_tac refl)
qed

lemma default_profile:
  "map_of configs ''default'' =
     Some \<lparr>population_base = 50000000, tiktok_users_base = 10000000,
           market_type = ''emerging'',
           specialties = [''entertainment'', ''music'', ''comedy'']\<rparr>"
  by (simp add: configs_def)

lemma united_states_rows:
  fixes self :: analyzer
  defines "self \<equiv> \<lparr>country = ''United States'', start_year = 2016, end_year = 2025,
          config = \<lparr>population_base = 331000000, tiktok_users_base = 100000000,
                     market_type = ''mature'',
                     specialties = [''entertainment'', ''influencers'', ''business'',
                                    ''ads'', ''music'']\<rparr>\<rparr>"
  shows "simulated_row self [2016..2025] 0 =
       \<lparr>Year = 2016, Population = 331000000, TikTok_Users = 100000000,
        Active_Users = 75000000, Time_Spent_Per_User = 31.5,
        Videos_Uploaded = 21900000000, Likes_Count = 3285000000000,
        Shares_Count = 262800000000, Comments_Count = 164250000000,
        Ad_Revenue = 281250000, Creator_Earnings = 70312500,
        E_Commerce_Revenue = 0, Engagement_Rate = 0.12,
        User_Growth_Rate = 0, Virality_Score = 1.44,
        Users_Under_25 = 45000000, Users_25_34 = 30000000,
        Users_Over_35 = 25000000\<rparr>"
    and "simulated_row self [2016..2025] 1 =
       \<lparr>Year = 2017, Population = 332324000, TikTok_Users = 135000000,
        Active_Users = 75000000, Time_Spent_Per_User = 31.5,
        Videos_Uploaded = 21900000000, Likes_Count = 3285000000000,
        Shares_Count = 262800000000, Comments_Count = 164250000000,
        Ad_Revenue = 281250000, Creator_Earnings = 70312500,
        E_Commerce_Revenue = 0, Engagement_Rate = 0.12,
        User_Growth_Rate = 0, Virality_Score = 1.44,
        Users_Under_25 = 45000000, Users_25_34 = 30000000,
        Users_Over_35 = 25000000\<rparr>"
  unfolding self_def
  by (simp_all add: simulated_row_def simulate_population_def
      simulate_tiktok_users_def simulate_time_spent_def simulate_engagement_rate_def
      simulate_virality_score_def nth_enumerate_eq active_at_def active_rate_def
      single_date_users_def ceiling_fraction_def videos_at_def likes_at_def ads_at_def
      ecommerce_at_def young_ratio_def growth_column_def first_growth_rate_def
      upto_rec1 Let_def)


lemma united_states_tables:
  fixes self :: analyzer
  defines "self \<equiv> \<lparr>country = ''United States'', start_year = 2016, end_year = 2025,
          config = \<lparr>population_base = 331000000, tiktok_users_base = 100000000,
                     market_type = ''mature'',
                     specialties = [''entertainment'', ''influencers'', ''business'',
                                    ''ads'', ''music'']\<rparr>\<rparr>"
  shows "\<exists>pre post. simulated_table self = Inr pre \<and> generate_tiktok_data self = Inr post \<and>
      length pre = 10 \<and> length post = 10 \<and>
      pre ! 0 = simulated_row self [2016..2025] 0 \<and>
      pre ! 1 = simulated_row self [2016..2025] 1 \<and>
      post ! 0 = adjust_row self (simulated_row self [2016..2025] 0) \<and>
      post ! 1 = adjust_row self (simulated_row self [2016..2025] 1)"
proof -
  have range: "date_range (start_year self) (end_year self) = Inr [2016..2025]"
    by (simp add: self_def date_range_program)
  have len: "length [2016..2025::int] = 10"
    by simp
  show ?thesis
    unfolding simulated_table_closed[OF range] generate_closed[OF range] len
    by (simp del: upt_Suc)
qed

section \<open>Saturation of the user count\<close>

text \<open>
  Claim C5. For every country profile and every year range for which the date index is
  built, the table is generated and every record of it has a \<open>TikTok_Users\<close> value of at
  most \<open>population_base\<close> times the ceiling fraction, which is 0.45 for a domestic market
  and 0.65 for every other market type.
\<close>

theorem tiktok_users_ceiling:
  assumes "date_range (start_year self) (end_year self) = Inr dates"
  shows "\<exists>df. generate_tiktok_data self = Inr df \<and> length df = length dates \<and>
        (\<forall>r \<in> set df. TikTok_Users r \<le> population_base (config self) *
            (if market_type (config self) = ''domestic'' then 0.45 else 0.65))"
proof -
  obtain df where df: "generate_tiktok_data self = Inr df"
    using generate_defined[OF assms] by blast
  note rows = generate_rows[OF assms df]
  have "TikTok_Users r \<le> population_base (config self) * ceiling_fraction self"
    if "r \<in> set df" for r
  proof -
    from that obtain k where k: "k < length df" "r = df ! k"
      by (auto simp: in_set_conv_nth)
    with rows have "TikTok_Users r = simulate_tiktok_users self dates ! k"
      by (simp add: adjust_row_frame simulated_row_def)
    with k rows(1) show ?thesis
      by (simp add: tiktok_users_nth)
  qed
  with df rows(1) show ?thesis
    by (auto simp: ceiling_fraction_def)
qed

theorem tiktok_users_ceiling_witness:
  "\<exists>self df. TikTokCountryAnalyzer ''United States'' = Inr self \<and>
      date_range (start_year self) (end_year self) = Inr [2016..2025] \<and>
      generate_tiktok_data self = Inr df \<and> length df = 10 \<and>
      TikTok_Users (df ! 9) \<le> 215150000"
proof -
  let ?self = "\<lparr>country = ''United States'', start_year = 2016, end_year = 2025,
          config = \<lparr>population_base = 331000000, tiktok_users_base = 100000000,
                     market_type = ''mature'',
                     specialties = [''entertainment'', ''influencers'', ''business'',
                                    ''ads'', ''music'']\<rparr>\<rparr>"
  have range: "date_range (start_year ?self) (end_year ?self) = Inr [2016..2025]"
    by (simp add: date_range_program)
  from tiktok_users_ceiling[OF range] obtain df where
    df: "generate_tiktok_data ?self = Inr df" and
    len: "length df = length [2016..2025::int]" and
    le: "\<forall>r \<in> set df. TikTok_Users r \<le> 331000000 * 0.65"
    by auto
  from len have len10: "length df = 10" by simp
  then have "df ! 9 \<in> set df" by simp
  with le have "TikTok_Users (df ! 9) \<le> 215150000" by fastforce
  with df len10 range united_states_analyzer show ?thesis by blast
qed

section \<open>Fixed ratios of shares and comments\<close>

text \<open>
  Claim C6. In the final table, for every country profile and every record,
  \<open>Shares_Count\<close> is exactly 0.08 times \<open>Likes_Count\<close> and \<open>Comments_Count\<close> is exactly
  0.05 times \<open>Likes_Count\<close>; the trend adjustment touches none of the three fields. The
  table is generated whenever the date index is built.
\<close>

theorem shares_and_comments_ratio:
  assumes "date_range (start_year self) (end_year self) = Inr dates"
  shows "\<exists>df. generate_tiktok_data self = Inr df \<and> length df = length dates \<and>
        (\<forall>r \<in> set df. Shares_Count r = 0.08 * Likes_Count r \<and>
                        Comments_Count r = 0.05 * Likes_Count r)"
proof -
  obtain df where df: "generate_tiktok_data self = Inr df"
    using generate_defined[OF assms] by blast
  note rows = generate_rows[OF assms df]
  have "Shares_Count r = 0.08 * Likes_Count r \<and> Comments_Count r = 0.05 * Likes_Count r"
    if "r \<in> set df" for r
  proof -
    from that obtain k where "k < length df" "r = df ! k"
      by (auto simp: in_set_conv_nth)
    with rows(2) show ?thesis
      by (simp add: adjust_row_frame simulated_row_def)
  qed
  with df rows(1) show ?thesis by blast
qed

theorem shares_and_comments_ratio_witness:
  "\<exists>self df. TikTokCountryAnalyzer ''United States'' = Inr self \<and>
      date_range (start_year self) (end_year self) = Inr [2016..2025] \<and>
      generate_tiktok_data self = Inr df \<and> length df = 10 \<and>
      Shares_Count (df ! 4) = 0.08 * Likes_Count (df ! 4) \<and>
      Comments_Count (df ! 4) = 0.05 * Likes_Count (df ! 4)"
proof -
  let ?self = "\<lparr>country = ''United States'', start_year = 2016, end_year = 2025,
          config = \<lparr>population_base = 331000000, tiktok_users_base = 100000000,
                     market_type = ''mature'',
                     specialties = [''entertainment'', ''influencers'', ''business'',
                                    ''ads'', ''music'']\<rparr>\<rparr>"
  have range: "date_range (start_year ?self) (end_year ?self) = Inr [2016..2025]"
    by (simp add: date_range_program)
  from shares_and_comments_ratio[OF range] obtain df where
    df: "generate_tiktok_data ?self = Inr df" and
    len: "length df = length [2016..2025::int]" and
    eq: "\<forall>r \<in> set df. Shares_Count r = 0.08 * Likes_Count r \<and>
                        Comments_Count r = 0.05 * Likes_Count r"
    by auto
  from len have len10: "length df = 10" by simp
  then have "df ! 4 \<in> set df" by simp
  with eq have "Shares_Count (df ! 4) = 0.08 * Likes_Count (df ! 4) \<and>
                Comments_Count (df ! 4) = 0.05 * Likes_Count (df ! 4)" by blast
  with df len10 range united_states_analyzer show ?thesis by blast
qed

section \<open>The guarded division\<close>




section \<open>Frame of the trend adjustment\<close>

text \<open>
  Claim C9. The trend-adjustment pass keeps the number of records and changes only these
  fields in these calendar-year windows: \<open>User_Growth_Rate\<close> in 2016-2018 (times 1.2) and,
  for a mature market, from 2023 on (times 0.7); \<open>Ad_Revenue\<close> in 2019-2020 (times 1.3);
  \<open>Time_Spent_Per_User\<close> (times 1.25) and \<open>Active_Users\<close> (times 1.15) in 2020-2021;
  \<open>E_Commerce_Revenue\<close> in 2021-2023 for a profile with the e-commerce specialty
  (times 1.4). Every other field of every record is unchanged.
\<close>

theorem trend_adjustment_frame:
  assumes "k < length df" and "r = df ! k" and "r' = add_country_trends self df ! k"
  shows "length (add_country_trends self df) = length df \<and>
    Year r' = Year r \<and> Population r' = Population r \<and> TikTok_Users r' = TikTok_Users r \<and>
    Videos_Uploaded r' = Videos_Uploaded r \<and> Likes_Count r' = Likes_Count r \<and>
    Shares_Count r' = Shares_Count r \<and> Comments_Count r' = Comments_Count r \<and>
    Creator_Earnings r' = Creator_Earnings r \<and> Engagement_Rate r' = Engagement_Rate r \<and>
    Virality_Score r' = Virality_Score r \<and> Users_Under_25 r' = Users_Under_25 r \<and>
    Users_25_34 r' = Users_25_34 r \<and> Users_Over_35 r' = Users_Over_35 r \<and>
    User_Growth_Rate r' =
      (if 2016 \<le> Year r \<and> Year r \<le> 2018 then User_Growth_Rate r * 1.2
       else if 2023 \<le> Year r \<and> market_type (config self) = ''mature''
       then User_Growth_Rate r * 0.7 else User_Growth_Rate r) \<and>
    Ad_Revenue r' =
      (if 2019 \<le> Year r \<and> Year r \<le> 2020 then Ad_Revenue r * 1.3 else Ad_Revenue r) \<and>
    Time_Spent_Per_User r' =
      (if 2020 \<le> Year r \<and> Year r \<le> 2021 then Time_Spent_Per_User r * 1.25
       else Time_Spent_Per_User r) \<and>
    Active_Users r' =
      (if 2020 \<le> Year r \<and> Year r \<le> 2021 then Active_Users r * 1.15 else Active_Users r) \<and>
    E_Commerce_Revenue r' =
      (if 2021 \<le> Year r \<and> Year r \<le> 2023 \<and> ''e-commerce'' \<in> set (specialties (config self))
       then E_Commerce_Revenue r * 1.4 else E_Commerce_Revenue r)"
proof -
  have len: "length (add_country_trends self df) = length df"
    by (simp add: add_country_trends_map)
  have r': "r' = adjust_row self r"
    using assms by (simp add: add_country_trends_map)
  show ?thesis
    unfolding r' by (simp only: len adjust_row_frame adjust_row_effect simp_thms)
qed

theorem trend_adjustment_frame_witness:
  "Year (add_country_trends
      \<lparr>country = ''China'', start_year = 2016, end_year = 2025,
       config = \<lparr>population_base = 1400000000, tiktok_users_base = 600000000,
                  market_type = ''domestic'',
                  specialties = [''e-commerce'', ''live-streaming'', ''education'',
                                 ''government'']\<rparr>\<rparr>
      [\<lparr>Year = 2021, Population = 100, TikTok_Users = 100, Active_Users = 100,
        Time_Spent_Per_User = 100, Videos_Uploaded = 100, Likes_Count = 100,
        Shares_Count = 100, Comments_Count = 100, Ad_Revenue = 100,
        Creator_Earnings = 100, E_Commerce_Revenue = 100, Engagement_Rate = 100,
        User_Growth_Rate = 100, Virality_Score = 100, Users_Under_25 = 100,
        Users_25_34 = 100, Users_Over_35 = 100\<rparr>] ! 0) = 2021 \<and>
   Active_Users (add_country_trends
      \<lparr>country = ''China'', start_year = 2016, end_year = 2025,
       config = \<lparr>population_base = 1400000000, tiktok_users_base = 600000000,
                  market_type = ''domestic'',
                  specialties = [''e-commerce'', ''live-streaming'', ''education'',
                                 ''government'']\<rparr>\<rparr>
      [\<lparr>Year = 2021, Population = 100, TikTok_Users = 100, Active_Users = 100,
        Time_Spent_Per_User = 100, Videos_Uploaded = 100, Likes_Count = 100,
        Shares_Count = 100, Comments_Count = 100, Ad_Revenue = 100,
        Creator_Earnings = 100, E_Commerce_Revenue = 100, Engagement_Rate = 100,
        User_Growth_Rate = 100, Virality_Score = 100, Users_Under_25 = 100,
        Users_25_34 = 100, Users_Over_35 = 100\<rparr>] ! 0) = 115 \<and>
   Ad_Revenue (add_country_trends
      \<lparr>country = ''China'', start_year = 2016, end_year = 2025,
       config = \<lparr>population_base = 1400000000, tiktok_users_base = 600000000,
                  market_type = ''domestic'',
                  specialties = [''e-commerce'', ''live-streaming'', ''education'',
                                 ''government'']\<rparr>\<rparr>
      [\<lparr>Year = 2021, Population = 100, TikTok_Users = 100, Active_Users = 100,
        Time_Spent_Per_User = 100, Videos_Uploaded = 100, Likes_Count = 100,
        Shares_Count = 100, Comments_Count = 100, Ad_Revenue = 100,
        Creator_Earnings = 100, E_Commerce_Revenue = 100, Engagement_Rate = 100,
        User_Growth_Rate = 100, Virality_Score = 100, Users_Under_25 = 100,
        Users_25_34 = 100, Users_Over_35 = 100\<rparr>] ! 0) = 100 \<and>
   E_Commerce_Revenue (add_country_trends
      \<lparr>country = ''China'', start_year = 2016, end_year = 2025,
       config = \<lparr>population_base = 1400000000, tiktok_users_base = 600000000,
                  market_type = ''domestic'',
                  specialties = [''e-commerce'', ''live-streaming'', ''education'',
                                 ''government'']\<rparr>\<rparr>
      [\<lparr>Year = 2021, Population = 100, TikTok_Users = 100, Active_Users = 100,
        Time_Spent_Per_User = 100, Videos_Uploaded = 100, Likes_Count = 100,
        Shares_Count = 100, Comments_Count = 100, Ad_Revenue = 100,
        Creator_Earnings = 100, E_Commerce_Revenue = 100, Engagement_Rate = 100,
        User_Growth_Rate = 100, Virality_Score = 100, Users_Under_25 = 100,
        Users_25_34 = 100, Users_Over_35 = 100\<rparr>] ! 0) = 140"
  using trend_adjustment_frame[where k = 0 and self = "\<lparr>country = ''China'', start_year = 2016, end_year = 2025,
       config = \<lparr>population_base = 1400000000, tiktok_users_base = 600000000,
                  market_type = ''domestic'',
                  specialties = [''e-commerce'', ''live-streaming'', ''education'',
                                 ''government'']\<rparr>\<rparr>"
       and df = "[\<lparr>Year = 2021, Population = 100, TikTok_Users = 100, Active_Users = 100,
        Time_Spent_Per_User = 100, Videos_Uploaded = 100, Likes_Count = 100,
        Shares_Count = 100, Comments_Count = 100, Ad_Revenue = 100,
        Creator_Earnings = 100, E_Commerce_Revenue = 100, Engagement_Rate = 100,
        User_Growth_Rate = 100, Virality_Score = 100, Users_Under_25 = 100,
        Users_25_34 = 100, Users_Over_35 = 100\<rparr>]", OF _ refl refl]
  by simp

section \<open>The growth rate of the configured profiles\<close>

text \<open>
  Claim C4. For every profile of the configuration table (the default included) and every
  year range for which the date index is built, each single-date re-derivation of the user
  count returns \<open>tiktok_users_base\<close>, the table is generated, and the \<open>User_Growth_Rate\<close>
  field of the final table is 0 in every record.
\<close>

theorem growth_rate_always_zero:
  assumes "config self \<in> snd ` set configs"
    and "date_range (start_year self) (end_year self) = Inr dates"
  shows "item0 (simulate_tiktok_users self [date]) = Inr (tiktok_users_base (config self)) \<and>
    (\<exists>df. generate_tiktok_data self = Inr df \<and> length df = length dates \<and>
          (\<forall>r \<in> set df. User_Growth_Rate r = 0))"
proof -
  obtain df where df: "generate_tiktok_data self = Inr df"
    using generate_defined[OF assms(2)] by blast
  note rows = generate_rows[OF assms(2) df]
  have "User_Growth_Rate r = 0" if "r \<in> set df" for r
  proof -
    from that obtain k where k: "k < length df" "r = df ! k"
      by (auto simp: in_set_conv_nth)
    let ?row = "simulated_row self dates k"
    have "User_Growth_Rate ?row = 0"
      using k(1) rows(1) configured_growth_column[OF assms(1)]
      by (simp add: simulated_row_def)
    with k rows(2) show ?thesis
      by (simp add: adjust_row_effect)
  qed
  with df rows(1) show ?thesis
    by (auto simp: tiktok_users_single configured_single_date_users[OF assms(1)])
qed

theorem growth_rate_always_zero_witness:
  "\<exists>self df. TikTokCountryAnalyzer ''United States'' = Inr self \<and>
      date_range (start_year self) (end_year self) = Inr [2016..2025] \<and>
      item0 (simulate_tiktok_users self [2017]) = Inr 100000000 \<and>
      generate_tiktok_data self = Inr df \<and> length df = 10 \<and>
      User_Growth_Rate (df ! 1) = 0"
proof -
  let ?self = "\<lparr>country = ''United States'', start_year = 2016, end_year = 2025,
          config = \<lparr>population_base = 331000000, tiktok_users_base = 100000000,
                     market_type = ''mature'',
                     specialties = [''entertainment'', ''influencers'', ''business'',
                                    ''ads'', ''music'']\<rparr>\<rparr>"
  have conf: "config ?self \<in> snd ` set configs"
    by (simp add: configs_def)
  have range: "date_range (start_year ?self) (end_year ?self) = Inr [2016..2025]"
    by (simp add: date_range_program)
  from growth_rate_always_zero[OF conf range, of 2017] obtain df where
    u: "item0 (simulate_tiktok_users ?self [2017]) = Inr 100000000" and
    df: "generate_tiktok_data ?self = Inr df" and
    len: "length df = length [2016..2025::int]" and
    z: "\<forall>r \<in> set df. User_Growth_Rate r = 0"
    by auto
  from len have len10: "length df = 10" by simp
  then have "df ! 1 \<in> set df" by simp
  with z have "User_Growth_Rate (df ! 1) = 0" by blast
  with u df len10 range united_states_analyzer show ?thesis by blast
qed

section \<open>Profile lookup\<close>

text \<open>
  Claim C7. Profile lookup is total: it returns a profile for every country name; for a
  name that is not a key of the configuration table the profile is the one stored under
  \<open>''default''\<close>, and a complete run for such a name produces the same table as a run
  for the literal name \<open>''default''\<close>, without failing.
\<close>

theorem profile_lookup_total:
  assumes "map_of configs name = None"
  shows "(\<exists>c. get_country_config any_name = Inr c) \<and>
    get_country_config name =
      Inr \<lparr>population_base = 50000000, tiktok_users_base = 10000000,
           market_type = ''emerging'',
           specialties = [''entertainment'', ''music'', ''comedy'']\<rparr> \<and>
    get_country_config name = get_country_config ''default'' \<and>
    run name = run ''default'' \<and>
    (\<exists>df. run name = Inr df)"
proof -
  let ?d = "\<lparr>population_base = 50000000, tiktok_users_base = 10000000,
           market_type = ''emerging'',
           specialties = [''entertainment'', ''music'', ''comedy'']\<rparr>"
  have total: "\<exists>c. get_country_config any_name = Inr c"
    by (simp add: get_country_config_def default_profile)
  have unknown: "get_country_config name = Inr ?d"
    using assms by (simp add: get_country_config_def default_profile)
  have literal: "get_country_config ''default'' = Inr ?d"
    by (simp add: get_country_config_def default_profile)
  let ?a = "\<lparr>country = name, start_year = 2016, end_year = 2025, config = ?d\<rparr>"
  let ?b = "\<lparr>country = ''default'', start_year = 2016, end_year = 2025, config = ?d\<rparr>"
  have "generate_tiktok_data ?a = generate_tiktok_data ?b"
    by (rule generate_by_attributes) simp_all
  then have same: "run name = run ''default''"
    by (simp add: run_def TikTokCountryAnalyzer_def unknown literal)
  have "\<exists>df. run name = Inr df"
    using generate_defined[of ?a "[2016..2025]"]
    by (auto simp add: run_def TikTokCountryAnalyzer_def unknown date_range_program)
  with total unknown literal same show ?thesis by simp
qed

theorem profile_lookup_total_witness:
  "map_of configs ''Atlantis'' = None \<and>
   get_country_config ''Atlantis'' = get_country_config ''default'' \<and>
   run ''Atlantis'' = run ''default'' \<and>
   (\<exists>df. run ''Atlantis'' = Inr df)"
proof -
  have h: "map_of configs ''Atlantis'' = None"
    by (simp add: configs_def)
  from profile_lookup_total[OF h, of "''Atlantis''"] h show ?thesis by blast
qed

section \<open>Stages that re-derive the user count for a single date\<close>

text \<open>
  Claim C1 says that, before the trend adjustment, \<open>Active_Users\<close> of a record is that
  record's \<open>TikTok_Users\<close> times the activity rate (0.75 for a mature market). The stage
  takes the user count from \<^verbatim>\<open>_simulate_tiktok_users([date])[0]\<close>, where the year index is
  0 again. For the United States, year 2017, the table before the trend adjustment holds
  \<open>TikTok_Users = 135000000\<close> and \<open>Active_Users = 75000000\<close>, while 0.75 times the user
  count is 101250000.
\<close>

theorem active_users_not_from_same_year:
  "\<exists>self df. TikTokCountryAnalyzer ''United States'' = Inr self \<and>
      simulated_table self = Inr df \<and> length df = 10 \<and> Year (df ! 1) = 2017 \<and>
      TikTok_Users (df ! 1) = 135000000 \<and> Active_Users (df ! 1) = 75000000 \<and>
      TikTok_Users (df ! 1) * 0.75 = 101250000"
proof -
  from united_states_tables obtain pre where
    "simulated_table \<lparr>country = ''United States'', start_year = 2016, end_year = 2025,
          config = \<lparr>population_base = 331000000, tiktok_users_base = 100000000,
                     market_type = ''mature'',
                     specialties = [''entertainment'', ''influencers'', ''business'',
                                    ''ads'', ''music'']\<rparr>\<rparr> = Inr pre"
    "length pre = 10"
    "pre ! 1 = simulated_row \<lparr>country = ''United States'', start_year = 2016, end_year = 2025,
          config = \<lparr>population_base = 331000000, tiktok_users_base = 100000000,
                     market_type = ''mature'',
                     specialties = [''entertainment'', ''influencers'', ''business'',
                                    ''ads'', ''music'']\<rparr>\<rparr> [2016..2025] 1"
    by blast
  then show ?thesis
    unfolding united_states_rows united_states_analyzer by simp
qed

text \<open>
  Claim C2 says that in every record of the final table the three age brackets sum to that
  record's \<open>TikTok_Users\<close>. The three stages use the same single-date re-derivation: for
  the United States, year 2017, the brackets sum to 100000000 and \<open>TikTok_Users\<close> is
  135000000.
\<close>

theorem age_brackets_not_from_same_year:
  "\<exists>self df. TikTokCountryAnalyzer ''United States'' = Inr self \<and>
      generate_tiktok_data self = Inr df \<and> length df = 10 \<and> Year (df ! 1) = 2017 \<and>
      Users_Under_25 (df ! 1) + Users_25_34 (df ! 1) + Users_Over_35 (df ! 1) = 100000000 \<and>
      TikTok_Users (df ! 1) = 135000000"
proof -
  from united_states_tables obtain post where
    "generate_tiktok_data \<lparr>country = ''United States'', start_year = 2016, end_year = 2025,
          config = \<lparr>population_base = 331000000, tiktok_users_base = 100000000,
                     market_type = ''mature'',
                     specialties = [''entertainment'', ''influencers'', ''business'',
                                    ''ads'', ''music'']\<rparr>\<rparr> = Inr post"
    "length post = 10"
    "post ! 1 = adjust_row \<lparr>country = ''United States'', start_year = 2016, end_year = 2025,
          config = \<lparr>population_base = 331000000, tiktok_users_base = 100000000,
                     market_type = ''mature'',
                     specialties = [''entertainment'', ''influencers'', ''business'',
                                    ''ads'', ''music'']\<rparr>\<rparr>
       (simulated_row \<lparr>country = ''United States'', start_year = 2016, end_year = 2025,
          config = \<lparr>population_base = 331000000, tiktok_users_base = 100000000,
                     market_type = ''mature'',
                     specialties = [''entertainment'', ''influencers'', ''business'',
                                    ''ads'', ''music'']\<rparr>\<rparr> [2016..2025] 1)"
    by blast
  then show ?thesis
    unfolding united_states_rows united_states_analyzer
    by (simp add: adjust_row_frame)
qed

text \<open>
  Claim C3 is the end-to-end example of the United States. The values of 2016 and the user
  count of 2017 are as the claim gives them; the \<open>User_Growth_Rate\<close> of 2017 is 0 before
  the trend adjustment and 0 after it, where the claim gives 0.35 and 0.42.
\<close>

theorem united_states_example:
  "\<exists>self pre post. TikTokCountryAnalyzer ''United States'' = Inr self \<and>
      simulated_table self = Inr pre \<and> generate_tiktok_data self = Inr post \<and>
      Year (post ! 0) = 2016 \<and> Population (post ! 0) = 331000000 \<and>
      TikTok_Users (post ! 0) = 100000000 \<and> Active_Users (post ! 0) = 75000000 \<and>
      Time_Spent_Per_User (post ! 0) = 31.5 \<and>
      Year (post ! 1) = 2017 \<and> TikTok_Users (post ! 1) = 135000000 \<and>
      User_Growth_Rate (pre ! 1) = 0 \<and> User_Growth_Rate (post ! 1) = 0"
proof -
  from united_states_tables obtain pre post where
    "simulated_table \<lparr>country = ''United States'', start_year = 2016, end_year = 2025,
          config = \<lparr>population_base = 331000000, tiktok_users_base = 100000000,
                     market_type = ''mature'',
                     specialties = [''entertainment'', ''influencers'', ''business'',
                                    ''ads'', ''music'']\<rparr>\<rparr> = Inr pre"
    "generate_tiktok_data \<lparr>country = ''United States'', start_year = 2016, end_year = 2025,
          config = \<lparr>population_base = 331000000, tiktok_users_base = 100000000,
                     market_type = ''mature'',
                     specialties = [''entertainment'', ''influencers'', ''business'',
                                    ''ads'', ''music'']\<rparr>\<rparr> = Inr post"
    "pre ! 1 = simulated_row \<lparr>country = ''United States'', start_year = 2016, end_year = 2025,
          config = \<lparr>population_base = 331000000, tiktok_users_base = 100000000,
                     market_type = ''mature'',
                     specialties = [''entertainment'', ''influencers'', ''business'',
                                    ''ads'', ''music'']\<rparr>\<rparr> [2016..2025] 1"
    "post ! 0 = adjust_row \<lparr>country = ''United States'', start_year = 2016, end_year = 2025,
          config = \<lparr>population_base = 331000000, tiktok_users_base = 100000000,
                     market_type = ''mature'',
                     specialties = [''entertainment'', ''influencers'', ''business'',
                                    ''ads'', ''music'']\<rparr>\<rparr>
       (simulated_row \<lparr>country = ''United States'', start_year = 2016, end_year = 2025,
          config = \<lparr>population_base = 331000000, tiktok_users_base = 100000000,
                     market_type = ''mature'',
                     specialties = [''entertainment'', ''influencers'', ''business'',
                                    ''ads'', ''music'']\<rparr>\<rparr> [2016..2025] 0)"
    "post ! 1 = adjust_row \<lparr>country = ''United States'', start_year = 2016, end_year = 2025,
          config = \<lparr>population_base = 331000000, tiktok_users_base = 100000000,
                     market_type = ''mature'',
                     specialties = [''entertainment'', ''influencers'', ''business'',
                                    ''ads'', ''music'']\<rparr>\<rparr>
       (simulated_row \<lparr>country = ''United States'', start_year = 2016, end_year = 2025,
          config = \<lparr>population_base = 331000000, tiktok_users_base = 100000000,
                     market_type = ''mature'',
                     specialties = [''entertainment'', ''influencers'', ''business'',
                                    ''ads'', ''music'']\<rparr>\<rparr> [2016..2025] 1)"
    by blast
  then show ?thesis
    unfolding united_states_rows united_states_analyzer
    by (simp add: adjust_row_frame adjust_row_effect)
qed

end
